theory Spec2Isabelle
  imports Main
begin

section \<open>Python values and exceptions\<close>

text \<open>
  The values that reach the bridge are parsed JSON documents: request bodies, the
  answers of the mailbox API and the \<open>emails\<close> column. \<open>JNull\<close> is Python's \<open>None\<close>,
  a \<open>JObj\<close> is a dict with string keys (an association list read with \<open>map_of\<close>).
  Numbers are integers here; fractional JSON numbers are outside the model. A \<open>string\<close>
  is the sequence of characters of a Python \<open>str\<close>.
\<close>

datatype json =
    JNull
  | JBool bool
  | JNum int
  | JStr string
  | JArr "json list"
  | JObj "(string \<times> json) list"

text \<open>
  Every \<open>raise\<close> of \<open>main.py\<close> and every exception of the interpreter or of a library
  that the modelled paths can meet. \<open>HTTPException\<close> carries the status code and the
  \<open>detail\<close> body (absent for the bare 401).
\<close>

datatype error =
    HTTPException int "json option"
  | KeyError
  | TypeError
  | AttributeError
  | IndexError
  | ValueError
  | UnboundLocalError
  | OverflowError
  | ValidationError
  | ProgrammingError
  | InterfaceError
  | IntegrityError

text \<open>Truth value of a Python object, as in \<open>code == 200 and resp and ...\<close>.\<close>

fun py_truthy :: "json \<Rightarrow> bool" where
  "py_truthy JNull = False"
| "py_truthy (JBool b) = b"
| "py_truthy (JNum n) = (n \<noteq> 0)"
| "py_truthy (JStr s) = (s \<noteq> [])"
| "py_truthy (JArr xs) = (xs \<noteq> [])"
| "py_truthy (JObj kvs) = (kvs \<noteq> [])"

text \<open>
  \<open>x[i]\<close> with a non-negative integer literal \<open>i\<close>: a list or a \<open>str\<close> is indexed and
  raises \<open>IndexError\<close> out of range; a dict parsed from JSON has no integer key and
  raises \<open>KeyError\<close>; \<open>None\<close>, \<open>bool\<close> and \<open>int\<close> are not subscriptable.
\<close>

fun py_getitem_int :: "json \<Rightarrow> nat \<Rightarrow> error + json" where
  "py_getitem_int (JArr xs) i = (if i < length xs then Inr (xs ! i) else Inl IndexError)"
| "py_getitem_int (JStr s) i = (if i < length s then Inr (JStr [s ! i]) else Inl IndexError)"
| "py_getitem_int (JObj kvs) i = Inl KeyError"
| "py_getitem_int JNull i = Inl TypeError"
| "py_getitem_int (JBool b) i = Inl TypeError"
| "py_getitem_int (JNum n) i = Inl TypeError"

text \<open>
  \<open>x["key"]\<close>: a dict is looked up and raises \<open>KeyError\<close> on a missing key; every
  other value raises \<open>TypeError\<close> (list and string indices must be integers, the
  rest is not subscriptable).
\<close>

fun py_getitem_str :: "json \<Rightarrow> string \<Rightarrow> error + json" where
  "py_getitem_str (JObj kvs) k = (case map_of kvs k of None \<Rightarrow> Inl KeyError | Some v \<Rightarrow> Inr v)"
| "py_getitem_str (JArr xs) k = Inl TypeError"
| "py_getitem_str (JStr s) k = Inl TypeError"
| "py_getitem_str JNull k = Inl TypeError"
| "py_getitem_str (JBool b) k = Inl TypeError"
| "py_getitem_str (JNum n) k = Inl TypeError"

text \<open>
  \<open>x.get("key")\<close>: only a dict has the method; a missing key gives \<open>None\<close>.
\<close>

fun py_get :: "json \<Rightarrow> string \<Rightarrow> error + json" where
  "py_get (JObj kvs) k = (case map_of kvs k of None \<Rightarrow> Inr JNull | Some v \<Rightarrow> Inr v)"
| "py_get (JArr xs) k = Inl AttributeError"
| "py_get (JStr s) k = Inl AttributeError"
| "py_get JNull k = Inl AttributeError"
| "py_get (JBool b) k = Inl AttributeError"
| "py_get (JNum n) k = Inl AttributeError"

text \<open>\<open>s.split(sep)\<close> for a one-character separator: never an empty list.\<close>

fun str_split :: "char \<Rightarrow> string \<Rightarrow> string list" where
  "str_split sep [] = [] # []"
| "str_split sep (c # cs) =
     (if c = sep then [] # str_split sep cs
      else (case str_split sep cs of
              [] \<Rightarrow> [c] # []
            | p # ps \<Rightarrow> (c # p) # ps))"

text \<open>
  \<open>email.split("@")[i]\<close> on a value taken from the request: only a \<open>str\<close> has
  \<open>split\<close>.
\<close>

fun py_split_at :: "json \<Rightarrow> nat \<Rightarrow> error + string" where
  "py_split_at (JStr s) i =
     (let parts = str_split CHR ''@'' s
      in if i < length parts then Inr (parts ! i) else Inl IndexError)"
| "py_split_at (JArr xs) i = Inl AttributeError"
| "py_split_at (JObj kvs) i = Inl AttributeError"
| "py_split_at JNull i = Inl AttributeError"
| "py_split_at (JBool b) i = Inl AttributeError"
| "py_split_at (JNum n) i = Inl AttributeError"

section \<open>Primary-address resolution\<close>

text \<open>
  \<^verbatim>\<open>
  def get_primary_mail(mails: list):
      if len(mails) < 1:
          return None
      for mail in mails:
          if mail.get("primary") is True:
              return mail.get("value")
      return mail[0].get("value")
  \<close>
  \<open>for_mails cur ms\<close> is the loop with \<open>ms\<close> still to visit and \<open>cur\<close> the present
  binding of the loop variable \<open>mail\<close> (\<open>None\<close> before the first iteration). The
  statement after the loop subscripts \<open>mail\<close>, the last entry visited, not the list
  \<open>mails\<close>.
\<close>

fun for_mails :: "json option \<Rightarrow> json list \<Rightarrow> error + json" where
  "for_mails cur [] =
     (case cur of
        None \<Rightarrow> Inl UnboundLocalError
      | Some mail \<Rightarrow>
          (case py_getitem_int mail 0 of
             Inl e \<Rightarrow> Inl e
           | Inr first \<Rightarrow> py_get first ''value''))"
| "for_mails cur (mail # ms) =
     (case py_get mail ''primary'' of
        Inl e \<Rightarrow> Inl e
      | Inr p \<Rightarrow> if p = JBool True then py_get mail ''value'' else for_mails (Some mail) ms)"

definition get_primary_mail :: "json list \<Rightarrow> error + json" where
  "get_primary_mail mails =
     (if length mails < 1 then Inr JNull else for_mails None mails)"

section \<open>The SQLite store\<close>

text \<open>
  One row of the table \<open>users\<close> (columns \<open>id\<close>, \<open>mailcowId\<close>, \<open>scimId\<close>, \<open>active\<close>,
  \<open>userName\<close>, \<open>displayName\<close>, \<open>emails\<close>). A \<open>TEXT\<close> column holds a string or
  \<open>NULL\<close>. The \<open>emails\<close> column holds \<open>json.dumps(user.emails)\<close> and is only read
  back through \<open>json.loads\<close>; the row keeps the list itself.
\<close>

record users_row =
  col_id :: string
  col_mailcowId :: "string option"
  col_scimId :: "string option"
  col_active :: int
  col_userName :: string
  col_displayName :: "string option"
  col_emails :: "json list"

text \<open>An outgoing call of the mailbox client and the answer of the remote API.
  \<open>body = None\<close> is a body that is not JSON, for which \<open>resp.json()\<close> raises
  \<open>ValueError\<close>.\<close>

record request =
  url :: string
  api_key :: string
  payload :: "json option"

record response =
  status_code :: int
  body :: "json option"

text \<open>
  The durable state: the two tables of the database file, in insertion order, and
  the log of the calls sent to the remote API so far.
\<close>

record world =
  users :: "users_row list"
  metrics :: "(string \<times> int) list"
  sent :: "request list"

text \<open>
  A connection works on its own copy of the tables; only \<open>commit\<close> writes the copy
  back. A connection that is closed or dropped without \<open>commit\<close> leaves the file as
  it was.
\<close>

record conn =
  c_users :: "users_row list"
  c_metrics :: "(string \<times> int) list"

definition connect :: "world \<Rightarrow> conn" where
  "connect w = \<lparr>c_users = users w, c_metrics = metrics w\<rparr>"

definition commit :: "conn \<Rightarrow> world \<Rightarrow> world" where
  "commit c w = w\<lparr>users := c_users c, metrics := c_metrics c\<rparr>"

text \<open>
  The bootstrap at import time: \<open>INSERT INTO metrics ... ON CONFLICT(name) DO NOTHING\<close>
  for the three counters.
\<close>

definition insert_metric :: "string \<Rightarrow> (string \<times> int) list \<Rightarrow> (string \<times> int) list" where
  "insert_metric name rows = (if map_of rows name = None then rows @ [(name, 0)] else rows)"

definition bootstrap :: "world \<Rightarrow> world" where
  "bootstrap w =
     w\<lparr>metrics := insert_metric ''users_deleted''
                    (insert_metric ''users_updated''
                      (insert_metric ''users_created'' (metrics w)))\<rparr>"

text \<open>\<open>UPDATE metrics SET value = value + 1 WHERE name = ?\<close>. Counter values are
  unbounded integers: the 64-bit limit of an SQLite \<open>INTEGER\<close> is out of reach of
  counters that start at 0 and grow by one per request.\<close>

definition sql_increment :: "string \<Rightarrow> (string \<times> int) list \<Rightarrow> (string \<times> int) list" where
  "sql_increment name rows = map (\<lambda>(n, v). if n = name then (n, v + 1) else (n, v)) rows"

text \<open>The value of a counter, as \<open>SELECT value FROM metrics WHERE name = ?\<close> reads it.\<close>

definition counter :: "world \<Rightarrow> string \<Rightarrow> int option" where
  "counter w name = map_of (metrics w) name"

text \<open>
  Parameter binding of the \<open>sqlite3\<close> module. The parameters are a sequence, and their
  number must be the number of \<open>?\<close> of the statement, else \<open>ProgrammingError\<close>
  (Incorrect number of bindings supplied). A tuple \<open>(id,)\<close> is the sequence \<open>[id]\<close>;
  the parenthesised expression \<open>(id)\<close> is the string \<open>id\<close> itself, which as a
  sequence is the list of its one-character strings.
\<close>

definition sql_bind :: "nat \<Rightarrow> 'a list \<Rightarrow> error + 'a list" where
  "sql_bind n params = (if length params = n then Inr params else Inl ProgrammingError)"

definition str_as_sequence :: "string \<Rightarrow> string list" where
  "str_as_sequence s = map (\<lambda>c. [c]) s"

text \<open>A Python \<open>int\<close> is bound as a 64-bit integer, else \<open>OverflowError\<close>.\<close>

definition sql_int :: "int \<Rightarrow> error + int" where
  "sql_int i = (if - (2 ^ 63) \<le> i \<and> i < 2 ^ 63 then Inr i else Inl OverflowError)"

text \<open>Decimal rendering of an integer, as SQLite does when a number is stored in a
  \<open>TEXT\<close> column.\<close>

fun nat_str :: "nat \<Rightarrow> string" where
  "nat_str n =
     (if n < 10 then [char_of (48 + n)] else nat_str (n div 10) @ [char_of (48 + n mod 10)])"

definition int_str :: "int \<Rightarrow> string" where
  "int_str i = (if i < 0 then CHR ''-'' # nat_str (nat (- i)) else nat_str (nat i))"

text \<open>
  A Python value bound to a \<open>TEXT\<close> column: \<open>None\<close> is \<open>NULL\<close>, a \<open>str\<close> is stored as
  it is, an \<open>int\<close> or a \<open>bool\<close> (an \<open>int\<close> in Python) is stored as its decimal text,
  a list or a dict is not a supported type.
\<close>

fun sql_text :: "json \<Rightarrow> error + string option" where
  "sql_text JNull = Inr None"
| "sql_text (JStr s) = Inr (Some s)"
| "sql_text (JBool b) = Inr (Some (if b then ''1'' else ''0''))"
| "sql_text (JNum n) = (case sql_int n of Inl e \<Rightarrow> Inl e | Inr i \<Rightarrow> Inr (Some (int_str i)))"
| "sql_text (JArr xs) = Inl InterfaceError"
| "sql_text (JObj kvs) = Inl InterfaceError"

text \<open>A \<open>TEXT\<close> column read back into Python, and an \<open>Optional[str]\<close> field as a value.\<close>

fun py_of_text :: "string option \<Rightarrow> json" where
  "py_of_text None = JNull"
| "py_of_text (Some s) = JStr s"

text \<open>\<open>SELECT 1 FROM users WHERE scimId = ? OR userName = ?\<close>, then \<open>fetchone()\<close> as a
  truth value. A comparison with \<open>NULL\<close> is never true in SQL.\<close>

definition sql_user_exists :: "string option \<Rightarrow> string \<Rightarrow> users_row list \<Rightarrow> bool" where
  "sql_user_exists ext name rows =
     list_ex (\<lambda>r. (ext \<noteq> None \<and> col_scimId r = ext) \<or> col_userName r = name) rows"

text \<open>\<open>SELECT ... FROM users WHERE id = ?\<close>, then \<open>fetchone()\<close>.\<close>

definition sql_select_by_id :: "string \<Rightarrow> users_row list \<Rightarrow> users_row option" where
  "sql_select_by_id i rows = find (\<lambda>r. col_id r = i) rows"

text \<open>\<open>INSERT INTO users ...\<close>: \<open>id\<close> is the primary key and \<open>userName\<close> is \<open>UNIQUE\<close>.\<close>

definition sql_insert_user :: "users_row \<Rightarrow> users_row list \<Rightarrow> error + users_row list" where
  "sql_insert_user row rows =
     (if list_ex (\<lambda>r. col_id r = col_id row \<or> col_userName r = col_userName row) rows
      then Inl IntegrityError
      else Inr (rows @ [row]))"

text \<open>
  \<open>UPDATE users SET mailcowId = ?, scimId = ?, active = ?, userName = ?, displayName = ?,
  emails = ? WHERE id = ?\<close>. The key is an \<open>Optional[str]\<close>: \<open>id = NULL\<close> selects no
  row. A selected row whose new \<open>userName\<close> is that of another row violates \<open>UNIQUE\<close>.
\<close>

definition sql_update_user ::
  "string option \<Rightarrow> string option \<Rightarrow> int \<Rightarrow> string \<Rightarrow> string option \<Rightarrow> json list \<Rightarrow>
   string option \<Rightarrow> users_row list \<Rightarrow> error + users_row list" where
  "sql_update_user mailcowId scimId active userName displayName emails key rows =
     (if list_ex (\<lambda>r. Some (col_id r) = key \<and>
                      list_ex (\<lambda>r'. col_id r' \<noteq> col_id r \<and> col_userName r' = userName) rows) rows
      then Inl IntegrityError
      else Inr (map (\<lambda>r. if Some (col_id r) = key
                          then r\<lparr>col_mailcowId := mailcowId, col_scimId := scimId,
                                 col_active := active, col_userName := userName,
                                 col_displayName := displayName, col_emails := emails\<rparr>
                          else r) rows))"

text \<open>\<open>DELETE FROM users WHERE id = ?\<close>.\<close>

definition sql_delete_user :: "string \<Rightarrow> users_row list \<Rightarrow> users_row list" where
  "sql_delete_user i rows = filter (\<lambda>r. col_id r \<noteq> i) rows"

text \<open>\<open>SELECT ... FROM users LIMIT ? OFFSET ?\<close>: a negative limit is no limit, a
  negative offset is no offset.\<close>

definition sql_page :: "int \<Rightarrow> int \<Rightarrow> users_row list \<Rightarrow> users_row list" where
  "sql_page lim off rows =
     (let rest = drop (nat off) rows
      in if lim < 0 then rest else take (nat lim) rest)"

section \<open>Configuration and SCIM models\<close>

text \<open>The module-level settings. The two policy flags are the truth values of
  \<open>ALLOW_DELETE\<close> and \<open>MAILCOW_DELETE_MAILBOX\<close>.\<close>

record config =
  SCIM_TOKEN :: string
  MAILCOW_API_URL :: string
  MAILCOW_API_KEY :: string
  ALLOW_DELETE :: bool
  MAILCOW_DELETE_MAILBOX :: bool

text \<open>\<open>class SCIMUser(BaseModel)\<close>; the field \<open>id\<close> is \<open>user_id\<close> here.\<close>

record SCIMUser =
  schemas :: "json list"
  user_id :: "string option"
  externalId :: "string option"
  active :: bool
  userName :: string
  displayName :: "string option"
  emails :: "json list"

text \<open>\<open>class SCIMListResponse(BaseModel)\<close>.\<close>

record SCIMListResponse =
  list_schemas :: "json list"
  totalResults :: int
  itemsPerPage :: int
  startIndex :: int
  Resources :: "SCIMUser list"

text \<open>
  What the source passes as \<open>id=\<close> to the \<open>SCIMUser\<close> constructor: a string, or the
  name \<open>id\<close> where no variable of that name is in scope, which is Python's built-in
  function. The field is \<open>Optional[str]\<close>, and pydantic refuses a function.
\<close>

datatype id_arg = IdStr string | IdBuiltinFunction

fun validate_id :: "id_arg \<Rightarrow> error + string option" where
  "validate_id (IdStr s) = Inr (Some s)"
| "validate_id IdBuiltinFunction = Inl ValidationError"

text \<open>
  \<^verbatim>\<open>
  SCIMUser(schemas=["urn:ietf:params:scim:schemas:core:2.0:User"], id=..., externalId=row[1],
           active=bool(row[2]), userName=row[3], displayName=row[4], emails=json.loads(row[5]))
  \<close>
\<close>

definition SCIMUser_of_row :: "id_arg \<Rightarrow> users_row \<Rightarrow> error + SCIMUser" where
  "SCIMUser_of_row ident row =
     (case validate_id ident of
        Inl e \<Rightarrow> Inl e
      | Inr i \<Rightarrow>
          Inr \<lparr>schemas = [JStr ''urn:ietf:params:scim:schemas:core:2.0:User''],
               user_id = i,
               externalId = col_scimId row,
               active = (col_active row \<noteq> 0),
               userName = col_userName row,
               displayName = col_displayName row,
               emails = col_emails row\<rparr>)"

text \<open>The body of a SCIM error, the \<open>detail\<close> of the \<open>HTTPException\<close>s raised below.\<close>

definition scim_error :: "int \<Rightarrow> string \<Rightarrow> string \<Rightarrow> string \<Rightarrow> error" where
  "scim_error code code_str scimType detail =
     HTTPException code
       (Some (JObj [(''schemas'', JArr [JStr ''urn:ietf:params:scim:api:messages:2.0:Error'']),
                    (''status'', JStr code_str),
                    (''scimType'', JStr scimType),
                    (''detail'', JStr detail)]))"

text \<open>An \<open>Optional[str]\<close> inside an f-string.\<close>

fun py_format :: "string option \<Rightarrow> string" where
  "py_format None = ''None''"
| "py_format (Some s) = s"

definition upstream_error :: error where
  "upstream_error =
     scim_error 502 ''502'' ''serverError'' ''Request failed: upstream API returned an error''"

definition not_found_error :: "string \<Rightarrow> error" where
  "not_found_error i =
     scim_error 404 ''404'' ''notFound'' (''User with id '' @ [CHR 0x27] @ i @ [CHR 0x27] @ '' not found'')"

definition missing_emails_error :: error where
  "missing_emails_error =
     scim_error 400 ''400'' ''invalidSyntax'' ''Missing required attribute: emails''"

definition conflict_error :: "string option \<Rightarrow> string \<Rightarrow> error" where
  "conflict_error ext name =
     scim_error 409 ''409'' ''uniqueness''
       (''User with id '' @ [CHR 0x27] @ py_format ext @ [CHR 0x27] @ '' or userName '' @
        [CHR 0x27] @ name @ [CHR 0x27] @ '' already exists'')"

definition forbidden_error :: "string \<Rightarrow> error" where
  "forbidden_error i =
     scim_error 403 ''403'' ''mutability''
       (''Deletion of user with id '' @ [CHR 0x27] @ i @ [CHR 0x27] @ '' is not allowed.'')"

section \<open>The mailbox client\<close>

text \<open>
  \<open>await client.post(url, headers=headers, json=...)\<close>: the call is appended to the
  log and the remote API, a function of the call, answers. Transport errors are not
  modelled: the remote always answers.
\<close>

definition post :: "(request \<Rightarrow> response) \<Rightarrow> request \<Rightarrow> world \<Rightarrow> response \<times> world" where
  "post remote req w = (remote req, w\<lparr>sent := sent w @ [req]\<rparr>)"

text \<open>
  \<^verbatim>\<open>
  try:
      return resp.status_code, resp.json()
  except ValueError:
      return resp.status_code, None
  \<close>
\<close>

definition json_or_none :: "response \<Rightarrow> error + int \<times> json" where
  "json_or_none resp =
     (case body resp of
        None \<Rightarrow> Inr (status_code resp, JNull)
      | Some j \<Rightarrow> Inr (status_code resp, j))"

text \<open>\<^verbatim>\<open>return resp.status_code, resp.json()\<close> with no handler around it.\<close>

definition json_or_raise :: "response \<Rightarrow> error + int \<times> json" where
  "json_or_raise resp =
     (case body resp of
        None \<Rightarrow> Inl ValueError
      | Some j \<Rightarrow> Inr (status_code resp, j))"

definition get_mailbox_request :: "config \<Rightarrow> string \<Rightarrow> request" where
  "get_mailbox_request cfg ident =
     \<lparr>url = MAILCOW_API_URL cfg @ ''get/mailbox/'' @ ident,
      api_key = MAILCOW_API_KEY cfg,
      payload = None\<rparr>"

definition get_mailbox ::
  "config \<Rightarrow> (request \<Rightarrow> response) \<Rightarrow> string \<Rightarrow> world \<Rightarrow> (error + int \<times> json) \<times> world" where
  "get_mailbox cfg remote ident w =
     (case post remote (get_mailbox_request cfg ident) w of
        (resp, w') \<Rightarrow> (json_or_none resp, w'))"

definition create_mailbox_request :: "config \<Rightarrow> string \<Rightarrow> string \<Rightarrow> string option \<Rightarrow> request" where
  "create_mailbox_request cfg local_part domain name =
     \<lparr>url = MAILCOW_API_URL cfg @ ''add/mailbox'',
      api_key = MAILCOW_API_KEY cfg,
      payload = Some (JObj [(''active'', JStr ''1''),
                            (''domain'', JStr domain),
                            (''local_part'', JStr local_part),
                            (''name'', py_of_text name),
                            (''authsource'', JStr ''generic-oidc''),
                            (''password'', JStr []),
                            (''password2'', JStr []),
                            (''quota'', JStr ''3072''),
                            (''force_pw_update'', JStr ''0''),
                            (''tls_enforce_in'', JStr ''1''),
                            (''tls_enforce_out'', JStr ''1''),
                            (''tags'', JArr [JStr ''scim''])])\<rparr>"

definition create_mailbox ::
  "config \<Rightarrow> (request \<Rightarrow> response) \<Rightarrow> string \<Rightarrow> string \<Rightarrow> string option \<Rightarrow> world \<Rightarrow>
   (error + int \<times> json) \<times> world" where
  "create_mailbox cfg remote local_part domain name w =
     (case post remote (create_mailbox_request cfg local_part domain name) w of
        (resp, w') \<Rightarrow> (json_or_none resp, w'))"

text \<open>
  \<open>update_mailbox(id, active=None, name=None, tags=None)\<close>: each argument that is not
  \<open>None\<close> becomes an attribute, in this order.
\<close>

definition update_mailbox_request ::
  "config \<Rightarrow> json \<Rightarrow> bool option \<Rightarrow> string option \<Rightarrow> json list option \<Rightarrow> request" where
  "update_mailbox_request cfg ident act name tags =
     \<lparr>url = MAILCOW_API_URL cfg @ ''edit/mailbox'',
      api_key = MAILCOW_API_KEY cfg,
      payload = Some (JObj [(''attr'',
                             JObj ((case act of None \<Rightarrow> []
                                    | Some a \<Rightarrow> [(''active'', JStr (if a then ''1'' else ''0''))]) @
                                   (case name of None \<Rightarrow> [] | Some n \<Rightarrow> [(''name'', JStr n)]) @
                                   (case tags of None \<Rightarrow> [] | Some t \<Rightarrow> [(''tags'', JArr t)]))),
                            (''items'', JArr [ident])])\<rparr>"

definition update_mailbox ::
  "config \<Rightarrow> (request \<Rightarrow> response) \<Rightarrow> json \<Rightarrow> bool option \<Rightarrow> string option \<Rightarrow> json list option \<Rightarrow>
   world \<Rightarrow> (error + int \<times> json) \<times> world" where
  "update_mailbox cfg remote ident act name tags w =
     (case post remote (update_mailbox_request cfg ident act name tags) w of
        (resp, w') \<Rightarrow> (json_or_raise resp, w'))"

definition rename_mailbox_request :: "config \<Rightarrow> json \<Rightarrow> string \<Rightarrow> string \<Rightarrow> string \<Rightarrow> request" where
  "rename_mailbox_request cfg ident old_local_part local_part domain =
     \<lparr>url = MAILCOW_API_URL cfg @ ''edit/rename-mbox'',
      api_key = MAILCOW_API_KEY cfg,
      payload = Some (JObj [(''attr'',
                             JObj [(''domain'', JStr domain),
                                   (''old_local_part'', JStr old_local_part),
                                   (''new_local_part'', JStr local_part),
                                   (''create_alias'', JStr ''1'')]),
                            (''items'', JArr [ident])])\<rparr>"

text \<open>\<open>id.split("@")[0]\<close> is evaluated while the payload is built, before the call.\<close>

definition rename_mailbox ::
  "config \<Rightarrow> (request \<Rightarrow> response) \<Rightarrow> json \<Rightarrow> string \<Rightarrow> string \<Rightarrow> world \<Rightarrow>
   (error + int \<times> json) \<times> world" where
  "rename_mailbox cfg remote ident local_part domain w =
     (case py_split_at ident 0 of
        Inl e \<Rightarrow> (Inl e, w)
      | Inr old_local_part \<Rightarrow>
          (case post remote (rename_mailbox_request cfg ident old_local_part local_part domain) w of
             (resp, w') \<Rightarrow> (json_or_raise resp, w')))"

definition delete_mailbox_request :: "config \<Rightarrow> json \<Rightarrow> request" where
  "delete_mailbox_request cfg ident =
     \<lparr>url = MAILCOW_API_URL cfg @ ''delete/mailbox'',
      api_key = MAILCOW_API_KEY cfg,
      payload = Some (JArr [ident])\<rparr>"

definition delete_mailbox ::
  "config \<Rightarrow> (request \<Rightarrow> response) \<Rightarrow> json \<Rightarrow> world \<Rightarrow> (error + int \<times> json) \<times> world" where
  "delete_mailbox cfg remote ident w =
     (case post remote (delete_mailbox_request cfg ident) w of
        (resp, w') \<Rightarrow> (json_or_raise resp, w'))"

text \<open>
  The test that follows every remote call of the translator:
  \<^verbatim>\<open>code == 200 and resp and resp[0]["type"] == "success"\<close>.
  \<open>and\<close> stops at the first false operand; the subscripts can raise.
\<close>

definition remote_success :: "int \<Rightarrow> json \<Rightarrow> error + bool" where
  "remote_success code resp =
     (if code = 200 \<and> py_truthy resp
      then (case py_getitem_int resp 0 of
              Inl e \<Rightarrow> Inl e
            | Inr first \<Rightarrow>
                (case py_getitem_str first ''type'' of
                   Inl e \<Rightarrow> Inl e
                 | Inr t \<Rightarrow> Inr (t = JStr ''success'')))
      else Inr False)"

text \<open>\<^verbatim>\<open>resp[0]["msg"][1]\<close>, the identifier of the mailbox in a success answer.\<close>

definition resp_mailbox_id :: "json \<Rightarrow> error + json" where
  "resp_mailbox_id resp =
     (case py_getitem_int resp 0 of
        Inl e \<Rightarrow> Inl e
      | Inr first \<Rightarrow>
          (case py_getitem_str first ''msg'' of
             Inl e \<Rightarrow> Inl e
           | Inr msg \<Rightarrow> py_getitem_int msg 1))"

section \<open>The provisioning translator\<close>

text \<open>
  Each operation takes the state of the world and returns its outcome, \<open>Inl\<close> the
  exception that leaves the function, with the state it leaves behind. \<open>uuid4\<close> is
  the string that \<open>str(uuid.uuid4())\<close> produces in this call.
\<close>

definition create_user ::
  "config \<Rightarrow> (request \<Rightarrow> response) \<Rightarrow> string \<Rightarrow> SCIMUser \<Rightarrow> world \<Rightarrow> (error + SCIMUser) \<times> world" where
  "create_user cfg remote uuid4 user w =
     (case get_primary_mail (emails user) of
        Inl e \<Rightarrow> (Inl e, w)
      | Inr email \<Rightarrow>
          if email \<noteq> JNull then
            let c = connect w in
            if sql_user_exists (externalId user) (userName user) (c_users c)
            then (Inl (conflict_error (externalId user) (userName user)), w)
            else
              (case py_split_at email 0 of
                 Inl e \<Rightarrow> (Inl e, w)
               | Inr local_part \<Rightarrow>
              (case py_split_at email 1 of
                 Inl e \<Rightarrow> (Inl e, w)
               | Inr domain \<Rightarrow>
              (case create_mailbox cfg remote local_part domain (displayName user) w of
                 (Inl e, w1) \<Rightarrow> (Inl e, w1)
               | (Inr (code, resp), w1) \<Rightarrow>
              (case remote_success code resp of
                 Inl e \<Rightarrow> (Inl e, w1)
               | Inr ok \<Rightarrow>
                   if \<not> ok then (Inl upstream_error, w1)
                   else
                     let user1 = user\<lparr>user_id := Some uuid4\<rparr> in
                     (case resp_mailbox_id resp of
                        Inl e \<Rightarrow> (Inl e, w1)
                      | Inr mailbox \<Rightarrow>
                     (case sql_text mailbox of
                        Inl e \<Rightarrow> (Inl e, w1)
                      | Inr mailcowId \<Rightarrow>
                     (case sql_insert_user
                             \<lparr>col_id = uuid4,
                              col_mailcowId = mailcowId,
                              col_scimId = externalId user1,
                              col_active = (if active user1 then 1 else 0),
                              col_userName = userName user1,
                              col_displayName = displayName user1,
                              col_emails = emails user1\<rparr>
                             (c_users c) of
                        Inl e \<Rightarrow> (Inl e, w1)
                      | Inr rows \<Rightarrow>
                          let c1 = c\<lparr>c_users := rows\<rparr>;
                              c2 = c1\<lparr>c_metrics := sql_increment ''users_created'' (c_metrics c1)\<rparr>
                          in (Inr user1, commit c2 w1))))))))
          else (Inl missing_emails_error, w))"

definition get_user :: "string \<Rightarrow> world \<Rightarrow> (error + SCIMUser) \<times> world" where
  "get_user ident w =
     (let c = connect w in
      case sql_bind 1 [ident] of
        Inl e \<Rightarrow> (Inl e, w)
      | Inr params \<Rightarrow>
          (case sql_select_by_id (params ! 0) (c_users c) of
             None \<Rightarrow> (Inl (not_found_error ident), w)
           | Some row \<Rightarrow> (SCIMUser_of_row (IdStr ident) row, w)))"

text \<open>
  The loop of \<open>get_users\<close> over the fetched rows. No variable \<open>id\<close> is bound in
  \<open>get_users\<close>, so \<open>id=id\<close> passes the built-in function.
\<close>

fun resources_of_rows :: "users_row list \<Rightarrow> error + SCIMUser list" where
  "resources_of_rows [] = Inr []"
| "resources_of_rows (row # rows) =
     (case SCIMUser_of_row IdBuiltinFunction row of
        Inl e \<Rightarrow> Inl e
      | Inr user \<Rightarrow>
          (case resources_of_rows rows of
             Inl e \<Rightarrow> Inl e
           | Inr rest \<Rightarrow> Inr (user # rest)))"

definition get_users :: "int \<Rightarrow> int \<Rightarrow> world \<Rightarrow> (error + SCIMListResponse) \<times> world" where
  "get_users index count w =
     (let c = connect w;
          offset = max (index - 1) 0;
          total = int (length (c_users c))
      in case sql_int count of
           Inl e \<Rightarrow> (Inl e, w)
         | Inr lim \<Rightarrow>
             (case sql_int offset of
                Inl e \<Rightarrow> (Inl e, w)
              | Inr off \<Rightarrow>
                  (case resources_of_rows (sql_page lim off (c_users c)) of
                     Inl e \<Rightarrow> (Inl e, w)
                   | Inr resources \<Rightarrow>
                       (Inr \<lparr>list_schemas =
                               [JStr ''urn:ietf:params:scim:api:messages:2.0:ListResponse''],
                             totalResults = total,
                             itemsPerPage = int (length resources),
                             startIndex = index,
                             Resources = resources\<rparr>, w))))"

text \<open>
  The statements that end both branches of \<open>delete_user\<close>:
  \<^verbatim>\<open>
  dbcur.execute("DELETE FROM users WHERE id = ?", (id))
  dbcur.execute("UPDATE metrics SET value = value + 1 WHERE name = 'users_deleted'")
  dbconn.commit()
  \<close>
\<close>

definition delete_and_count :: "conn \<Rightarrow> string \<Rightarrow> world \<Rightarrow> (error + unit) \<times> world" where
  "delete_and_count c ident w =
     (case sql_bind 1 (str_as_sequence ident) of
        Inl e \<Rightarrow> (Inl e, w)
      | Inr params \<Rightarrow>
          let c1 = c\<lparr>c_users := sql_delete_user (params ! 0) (c_users c)\<rparr>;
              c2 = c1\<lparr>c_metrics := sql_increment ''users_deleted'' (c_metrics c1)\<rparr>
          in (Inr (), commit c2 w))"

text \<open>The lookup of \<open>delete_user\<close> passes \<open>(id)\<close>, the string, as the parameters.\<close>

definition delete_user ::
  "config \<Rightarrow> (request \<Rightarrow> response) \<Rightarrow> string \<Rightarrow> world \<Rightarrow> (error + unit) \<times> world" where
  "delete_user cfg remote ident w =
     (if \<not> ALLOW_DELETE cfg then (Inl (forbidden_error ident), w)
      else
        let c = connect w in
        case sql_bind 1 (str_as_sequence ident) of
          Inl e \<Rightarrow> (Inl e, w)
        | Inr params \<Rightarrow>
            (case sql_select_by_id (params ! 0) (c_users c) of
               None \<Rightarrow> (Inl (not_found_error ident), w)
             | Some row \<Rightarrow>
                 if MAILCOW_DELETE_MAILBOX cfg then
                   (case delete_mailbox cfg remote (py_of_text (col_mailcowId row)) w of
                      (Inl e, w1) \<Rightarrow> (Inl e, w1)
                    | (Inr (code, resp), w1) \<Rightarrow>
                        (case remote_success code resp of
                           Inl e \<Rightarrow> (Inl e, w1)
                         | Inr ok \<Rightarrow>
                             if \<not> ok then (Inl upstream_error, w1)
                             else delete_and_count c ident w1))
                 else delete_and_count c ident w))"

text \<open>
  The rename step of \<open>update_user\<close>: the mailbox identifier to store afterwards.
  \<^verbatim>\<open>
  if email != mailcow_id:
      code, resp = await rename_mailbox(mailcow_id, email.split("@")[0], email.split("@")[1])
      if not (code == 200 and resp and resp[0]["type"] == "success"):
          raise HTTPException(status_code=502, ...)
      mailcow_id = resp[0]["msg"][1]
  \<close>
\<close>

definition rename_if_changed ::
  "config \<Rightarrow> (request \<Rightarrow> response) \<Rightarrow> json \<Rightarrow> json \<Rightarrow> world \<Rightarrow> (error + json) \<times> world" where
  "rename_if_changed cfg remote email mailcow_id w =
     (if email \<noteq> mailcow_id then
        (case py_split_at email 0 of
           Inl e \<Rightarrow> (Inl e, w)
         | Inr local_part \<Rightarrow>
        (case py_split_at email 1 of
           Inl e \<Rightarrow> (Inl e, w)
         | Inr domain \<Rightarrow>
        (case rename_mailbox cfg remote mailcow_id local_part domain w of
           (Inl e, w1) \<Rightarrow> (Inl e, w1)
         | (Inr (code, resp), w1) \<Rightarrow>
        (case remote_success code resp of
           Inl e \<Rightarrow> (Inl e, w1)
         | Inr ok \<Rightarrow>
             if \<not> ok then (Inl upstream_error, w1)
             else (case resp_mailbox_id resp of
                     Inl e \<Rightarrow> (Inl e, w1)
                   | Inr mailbox \<Rightarrow> (Inr mailbox, w1))))))
      else (Inr mailcow_id, w))"

text \<open>
  \<open>update_user(id, user)\<close>: the lookup uses the path parameter \<open>id\<close>, the \<open>UPDATE\<close>
  statement uses \<open>user.id\<close>, the field of the request body.
\<close>

definition update_user ::
  "config \<Rightarrow> (request \<Rightarrow> response) \<Rightarrow> string \<Rightarrow> SCIMUser \<Rightarrow> world \<Rightarrow> (error + SCIMUser) \<times> world" where
  "update_user cfg remote ident user w =
     (case get_primary_mail (emails user) of
        Inl e \<Rightarrow> (Inl e, w)
      | Inr email \<Rightarrow>
          if email \<noteq> JNull then
            let c = connect w in
            (case sql_bind 1 [ident] of
               Inl e \<Rightarrow> (Inl e, w)
             | Inr params \<Rightarrow>
            (case sql_select_by_id (params ! 0) (c_users c) of
               None \<Rightarrow> (Inl (not_found_error ident), w)
             | Some row \<Rightarrow>
                 let mailcow_id = py_of_text (col_mailcowId row) in
                 (case update_mailbox cfg remote mailcow_id (Some (active user)) (displayName user)
                         None w of
                    (Inl e, w1) \<Rightarrow> (Inl e, w1)
                  | (Inr (code, resp), w1) \<Rightarrow>
                 (case remote_success code resp of
                    Inl e \<Rightarrow> (Inl e, w1)
                  | Inr ok \<Rightarrow>
                      if \<not> ok then (Inl upstream_error, w1)
                      else
                        (case rename_if_changed cfg remote email mailcow_id w1 of
                           (Inl e, w2) \<Rightarrow> (Inl e, w2)
                         | (Inr mailbox, w2) \<Rightarrow>
                        (case sql_text mailbox of
                           Inl e \<Rightarrow> (Inl e, w2)
                         | Inr mailcowId \<Rightarrow>
                        (case sql_update_user mailcowId (externalId user)
                                (if active user then 1 else 0) (userName user)
                                (displayName user) (emails user) (user_id user) (c_users c) of
                           Inl e \<Rightarrow> (Inl e, w2)
                         | Inr rows \<Rightarrow>
                             let c1 = c\<lparr>c_users := rows\<rparr>;
                                 c2 = c1\<lparr>c_metrics :=
                                           sql_increment ''users_updated'' (c_metrics c1)\<rparr>
                             in (Inr user, commit c2 w2))))))))
          else (Inl missing_emails_error, w))"

section \<open>The SCIM endpoints for users\<close>

text \<open>
  The five handlers under \<open>/Users\<close>. Each compares the \<open>Authorization\<close> header with
  \<open>f"Bearer {SCIM_TOKEN}"\<close>, raises a bare 401 when they differ, and else calls the
  translator. The other handlers of \<open>main.py\<close> (groups, health, capabilities, metrics)
  write neither table.
\<close>

datatype users_request =
    GetUser string
  | GetUsers int int
  | PostUser SCIMUser
  | PutUser string SCIMUser
  | DeleteUser string

datatype users_reply =
    UserBody SCIMUser
  | ListBody SCIMListResponse
  | NoContent

definition users_endpoint ::
  "config \<Rightarrow> (request \<Rightarrow> response) \<Rightarrow> string \<Rightarrow> string option \<Rightarrow> users_request \<Rightarrow> world \<Rightarrow>
   (error + users_reply) \<times> world" where
  "users_endpoint cfg remote uuid4 authorization rq w =
     (if authorization \<noteq> Some (''Bearer '' @ SCIM_TOKEN cfg)
      then (Inl (HTTPException 401 None), w)
      else
        (case rq of
           GetUser i \<Rightarrow>
             (case get_user i w of
                (Inl e, w') \<Rightarrow> (Inl e, w')
              | (Inr user, w') \<Rightarrow> (Inr (UserBody user), w'))
         | GetUsers index count \<Rightarrow>
             (case get_users index count w of
                (Inl e, w') \<Rightarrow> (Inl e, w')
              | (Inr page, w') \<Rightarrow> (Inr (ListBody page), w'))
         | PostUser user \<Rightarrow>
             (case create_user cfg remote uuid4 user w of
                (Inl e, w') \<Rightarrow> (Inl e, w')
              | (Inr user', w') \<Rightarrow> (Inr (UserBody user'), w'))
         | PutUser i user \<Rightarrow>
             (case update_user cfg remote i user w of
                (Inl e, w') \<Rightarrow> (Inl e, w')
              | (Inr user', w') \<Rightarrow> (Inr (UserBody user'), w'))
         | DeleteUser i \<Rightarrow>
             (case delete_user cfg remote i w of
                (Inl e, w') \<Rightarrow> (Inl e, w')
              | (Inr u, w') \<Rightarrow> (Inr NoContent, w'))))"

text \<open>
  The counter named in the \<open>UPDATE metrics\<close> statement of the handler of a request:
  \<open>create_user\<close> names \<open>users_created\<close>, \<open>update_user\<close> names \<open>users_updated\<close>,
  \<open>delete_user\<close> names \<open>users_deleted\<close>, the two readers have no such statement.
\<close>

fun counts :: "users_request \<Rightarrow> string \<Rightarrow> bool" where
  "counts (PostUser user) name = (name = ''users_created'')"
| "counts (PutUser i user) name = (name = ''users_updated'')"
| "counts (DeleteUser i) name = (name = ''users_deleted'')"
| "counts (GetUser i) name = False"
| "counts (GetUsers index count) name = False"

section \<open>Example inputs\<close>

definition example_config :: config where
  "example_config =
     \<lparr>SCIM_TOKEN = ''secret'',
      MAILCOW_API_URL = ''https://mail.example.com/api/v1/'',
      MAILCOW_API_KEY = ''key'',
      ALLOW_DELETE = True,
      MAILCOW_DELETE_MAILBOX = False\<rparr>"

text \<open>The database right after the bootstrap, and one with a single provisioned user.\<close>

definition empty_world :: world where
  "empty_world = bootstrap \<lparr>users = [], metrics = [], sent = []\<rparr>"

definition alice_row :: users_row where
  "alice_row =
     \<lparr>col_id = ''4a1f'',
      col_mailcowId = Some ''alice@example.com'',
      col_scimId = Some ''ext-1'',
      col_active = 1,
      col_userName = ''alice'',
      col_displayName = Some ''Alice'',
      col_emails = [JObj [(''value'', JStr ''alice@example.com''), (''primary'', JBool True)]]\<rparr>"

definition alice_world :: world where
  "alice_world = empty_world\<lparr>users := [alice_row], metrics := sql_increment ''users_created'' (metrics empty_world)\<rparr>"

text \<open>A row whose key is one character long.\<close>

definition short_world :: world where
  "short_world = empty_world\<lparr>users := [alice_row\<lparr>col_id := ''7''\<rparr>]\<rparr>"

definition alice :: SCIMUser where
  "alice =
     \<lparr>schemas = [JStr ''urn:ietf:params:scim:schemas:core:2.0:User''],
      user_id = None,
      externalId = Some ''ext-1'',
      active = True,
      userName = ''alice'',
      displayName = Some ''Alice'',
      emails = [JObj [(''value'', JStr ''alice@example.com''), (''primary'', JBool True)]]\<rparr>"

text \<open>A remote API that acknowledges every call, one that answers every call with a
  gateway error page, and one that does so for the rename call only.\<close>

definition success_response :: response where
  "success_response =
     \<lparr>status_code = 200,
      body = Some (JArr [JObj [(''type'', JStr ''success''),
                               (''msg'', JArr [JStr ''mailbox_modified'', JStr ''alice@example.com''])]])\<rparr>"

definition gateway_error_page :: response where
  "gateway_error_page = \<lparr>status_code = 502, body = None\<rparr>"

definition success_remote :: "request \<Rightarrow> response" where
  "success_remote req = success_response"

definition failing_remote :: "request \<Rightarrow> response" where
  "failing_remote req = gateway_error_page"

definition rename_failing_remote :: "request \<Rightarrow> response" where
  "rename_failing_remote req =
     (if url req = MAILCOW_API_URL example_config @ ''edit/rename-mbox''
      then gateway_error_page else success_response)"

text \<open>A remote API that rejects the rename call with a structured error of its own.\<close>

definition rename_rejecting_remote :: "request \<Rightarrow> response" where
  "rename_rejecting_remote req =
     (if url req = MAILCOW_API_URL example_config @ ''edit/rename-mbox''
      then \<lparr>status_code = 200,
            body = Some (JArr [JObj [(''type'', JStr ''danger''),
                                     (''msg'', JStr ''mailbox_rename_failed'')]])\<rparr>
      else success_response)"


text \<open>A request body for the stored user that names her record and moves her to a new
  address.\<close>

definition alice_renamed :: SCIMUser where
  "alice_renamed =
     alice\<lparr>user_id := Some ''4a1f'',
           emails := [JObj [(''value'', JStr ''alice.new@example.com''), (''primary'', JBool True)]]\<rparr>"

section \<open>Requests served one after the other\<close>

text \<open>
  The process serves one request at a time against the same database file. A call is
  the behaviour of the remote API during the request, the UUID drawn for it, the
  \<open>Authorization\<close> header and the request itself.
\<close>

fun serve ::
  "config \<Rightarrow> ((request \<Rightarrow> response) \<times> string \<times> string option \<times> users_request) list \<Rightarrow>
   world \<Rightarrow> world" where
  "serve cfg [] w = w"
| "serve cfg ((remote, uuid4, authorization, rq) # calls) w =
     serve cfg calls (snd (users_endpoint cfg remote uuid4 authorization rq w))"

section \<open>Outcome and frame of each operation\<close>

text \<open>
  An operation either raises and leaves both tables as they were, or returns and has
  committed its statement on \<open>users\<close> together with the increment of its counter.
\<close>

lemma map_of_sql_increment:
  "map_of (sql_increment name rows) m =
     map_option (\<lambda>v. if m = name then v + 1 else v) (map_of rows m)"
  by (induction rows) (auto simp: sql_increment_def)

lemma create_user_cases:
  assumes "create_user cfg remote uuid4 user w = (res, w')"
  shows "(\<exists>e. res = Inl e \<and> users w' = users w \<and> metrics w' = metrics w) \<or>
         (\<exists>row. res = Inr (user\<lparr>user_id := Some uuid4\<rparr>) \<and> users w' = users w @ [row] \<and>
                col_id row = uuid4 \<and> \<not> list_ex (\<lambda>r. col_id r = uuid4) (users w) \<and>
                metrics w' = sql_increment ''users_created'' (metrics w))"
  using assms unfolding create_user_def
  by (auto simp: Let_def connect_def commit_def create_mailbox_def post_def json_or_none_def
         sql_insert_user_def list_ex_iff
      split: sum.splits if_splits prod.splits option.splits)

lemma rename_if_changed_frame:
  assumes "rename_if_changed cfg remote email mailcow_id w = (res, w')"
  shows "users w' = users w \<and> metrics w' = metrics w"
  using assms unfolding rename_if_changed_def
  by (auto simp: rename_mailbox_def post_def json_or_raise_def
      split: sum.splits if_splits prod.splits option.splits)

lemma update_user_cases:
  assumes "update_user cfg remote ident user w = (res, w')"
  shows "(\<exists>e. res = Inl e \<and> users w' = users w \<and> metrics w' = metrics w) \<or>
         (res = Inr user \<and> metrics w' = sql_increment ''users_updated'' (metrics w) \<and>
          (\<exists>mailcowId. sql_update_user mailcowId (externalId user) (if active user then 1 else 0)
                 (userName user) (displayName user) (emails user) (user_id user) (users w)
               = Inr (users w')))"
  using assms unfolding update_user_def
  by (auto simp: Let_def connect_def commit_def update_mailbox_def post_def json_or_raise_def
      dest!: rename_if_changed_frame
      split: sum.splits if_splits prod.splits option.splits)

lemma delete_and_count_cases:
  assumes "delete_and_count (connect w) ident w1 = (res, w')" "users w1 = users w" "metrics w1 = metrics w"
  shows "(\<exists>e. res = Inl e \<and> users w' = users w \<and> metrics w' = metrics w) \<or>
         (res = Inr () \<and> metrics w' = sql_increment ''users_deleted'' (metrics w) \<and>
          users w' = sql_delete_user ident (users w))"
  using assms unfolding delete_and_count_def
  by (cases ident; cases "tl ident")
     (auto simp: Let_def connect_def commit_def sql_bind_def str_as_sequence_def
      split: sum.splits if_splits prod.splits option.splits)

lemma delete_user_cases:
  assumes "delete_user cfg remote ident w = (res, w')"
  shows "(\<exists>e. res = Inl e \<and> users w' = users w \<and> metrics w' = metrics w) \<or>
         (res = Inr () \<and> metrics w' = sql_increment ''users_deleted'' (metrics w) \<and>
          users w' = sql_delete_user ident (users w))"
  using assms unfolding delete_user_def
  by (auto simp: Let_def delete_mailbox_def post_def json_or_raise_def
      dest!: delete_and_count_cases
      split: sum.splits if_splits prod.splits option.splits)

lemma get_user_frame: "snd (get_user ident w) = w"
  unfolding get_user_def
  by (auto simp: Let_def split: sum.splits option.splits)

lemma get_users_frame: "snd (get_users index count w) = w"
  unfolding get_users_def
  by (auto simp: Let_def split: sum.splits option.splits)

section \<open>Primary-address resolution on concrete lists\<close>

lemmas example_defs =
  example_config_def empty_world_def alice_row_def alice_world_def short_world_def alice_def
  success_response_def gateway_error_page_def success_remote_def failing_remote_def
  rename_failing_remote_def bootstrap_def insert_metric_def sql_increment_def

text \<open>The empty list resolves to \<open>None\<close>; the first entry flagged primary wins.\<close>

lemma get_primary_mail_examples:
  "get_primary_mail [] = Inr JNull"
  "get_primary_mail [JObj [(''value'', JStr ''a@x''), (''primary'', JBool False)],
                     JObj [(''value'', JStr ''b@x''), (''primary'', JBool True)]] = Inr (JStr ''b@x'')"
  by (simp_all add: get_primary_mail_def)

text \<open>
  When the loop ends without a flagged entry, the fallback subscripts the last dict
  with \<open>0\<close>: every non-empty list of dicts without a primary flag raises \<open>KeyError\<close>.
\<close>

lemma for_mails_unflagged:
  assumes "\<forall>m\<in>set ms. \<exists>kvs. m = JObj kvs \<and> map_of kvs ''primary'' \<noteq> Some (JBool True)"
    and "(\<exists>kvs. cur = Some (JObj kvs)) \<or> ms \<noteq> []"
  shows "for_mails cur ms = Inl KeyError"
  using assms
  by (induction ms arbitrary: cur) (auto split: option.splits)

text \<open>
  Claim C1 (primary-address resolution returns the first entry's value when no entry is
  flagged primary, so \<open>[{value:"a@x"}]\<close> gives \<open>"a@x"\<close>). On that very list the function
  does not return: \<open>mail[0]\<close> raises \<open>KeyError\<close>.
\<close>

theorem get_primary_mail_unflagged:
  "get_primary_mail [JObj [(''value'', JStr ''a@x'')]] = Inl KeyError"
  by (simp add: get_primary_mail_def)

section \<open>Update, delete, list and the mailbox client on concrete inputs\<close>

text \<open>
  Claim C2 (a successful update replaces the record stored under the path identifier).
  The stored user \<open>4a1f\<close> is updated through \<open>PUT /Users/4a1f\<close> with a body that carries
  no \<open>id\<close> and a new display name; both remote calls succeed. The operation returns the
  resource and counts an update, and the table \<open>users\<close> is what it was: the \<open>UPDATE\<close>
  statement is keyed by \<open>user.id\<close>, here \<open>None\<close>.
\<close>

theorem update_user_keyed_by_body_id:
  "update_user example_config success_remote ''4a1f'' (alice\<lparr>displayName := Some ''Alicia''\<rparr>) alice_world =
     (Inr (alice\<lparr>displayName := Some ''Alicia''\<rparr>),
      alice_world\<lparr>metrics := sql_increment ''users_updated'' (metrics alice_world),
                  sent := [update_mailbox_request example_config (JStr ''alice@example.com'')
                             (Some True) (Some ''Alicia'') None]\<rparr>)"
  by (simp add: update_user_def get_primary_mail_def example_defs connect_def commit_def
        sql_bind_def sql_select_by_id_def update_mailbox_def post_def json_or_raise_def
        remote_success_def rename_if_changed_def sql_update_user_def Let_def)

text \<open>
  The lookup of \<open>delete_user\<close> succeeds in binding its parameter only for an identifier
  of exactly one character; only then can the 404 exception be raised.
\<close>

lemma delete_user_wrong_arity:
  assumes "ALLOW_DELETE cfg" and "length ident \<noteq> 1"
  shows "delete_user cfg remote ident w = (Inl ProgrammingError, w)"
  using assms
  by (simp add: delete_user_def sql_bind_def str_as_sequence_def Let_def)

lemma delete_user_one_character:
  assumes "ALLOW_DELETE cfg" and "length ident = 1"
    and "sql_select_by_id ident (users w) = None"
  shows "delete_user cfg remote ident w = (Inl (not_found_error ident), w)"
proof -
  from assms(2) obtain c where "ident = [c]" by (cases ident) auto
  with assms show ?thesis
    by (simp add: delete_user_def sql_bind_def str_as_sequence_def connect_def Let_def)
qed

text \<open>
  Claim C3 (deleting an identifier with no record fails with the 404 \<open>notFound\<close> error).
  Deletion is allowed and no record has the identifier \<open>nonexistent\<close>, yet the lookup
  raises \<open>ProgrammingError\<close>: the statement has one placeholder and the string passed
  as parameters has eleven characters.
\<close>

theorem delete_user_missing_ProgrammingError:
  "ALLOW_DELETE example_config \<and>
   sql_select_by_id ''nonexistent'' (users empty_world) = None \<and>
   delete_user example_config success_remote ''nonexistent'' empty_world =
     (Inl ProgrammingError, empty_world)"
  by (simp add: delete_user_def example_defs sql_select_by_id_def sql_bind_def
        str_as_sequence_def connect_def Let_def)

text \<open>
  \<open>get_users\<close> returns an envelope only for an empty page; the envelope then has the
  total count of the table and the requested start index. A page with a row raises.
\<close>

lemma resources_of_rows_nonempty:
  "rows \<noteq> [] \<Longrightarrow> resources_of_rows rows = Inl ValidationError"
  by (cases rows) (simp_all add: SCIMUser_of_row_def)

lemma get_users_nonempty_page:
  assumes "sql_int count = Inr lim" and "sql_int (max (index - 1) 0) = Inr off"
    and "sql_page lim off (users w) \<noteq> []"
  shows "get_users index count w = (Inl ValidationError, w)"
  using assms
  by (simp add: get_users_def connect_def Let_def resources_of_rows_nonempty)

lemma get_users_envelope:
  assumes "get_users index count w = (Inr page, w')"
  shows "totalResults page = int (length (users w)) \<and> startIndex page = index \<and>
         itemsPerPage page = int (length (Resources page)) \<and> Resources page = [] \<and> w' = w"
proof -
  have empty: "resources_of_rows rows = Inr rs \<Longrightarrow> rs = []" for rows rs
    by (cases rows) (auto simp: SCIMUser_of_row_def)
  show ?thesis
    using assms
    by (auto simp: get_users_def connect_def Let_def split: sum.splits dest: empty)
qed

text \<open>
  Claim C4 (the list envelope carries the stored records, each with its stored
  identifier). With one stored user, \<open>GET /Users?index=1&count=100\<close> builds no
  envelope: the first row already fails the validation of \<open>SCIMUser\<close>, whose \<open>id\<close>
  argument is the built-in function.
\<close>

theorem get_users_ValidationError:
  "get_users 1 100 alice_world = (Inl ValidationError, alice_world)"
  by (simp add: get_users_def example_defs sql_int_def sql_page_def connect_def Let_def
        SCIMUser_of_row_def)

text \<open>
  Claim C5 (every mailbox client operation returns (status, absent) for a body that is
  not JSON). On a gateway error page the edit, rename and delete operations raise
  \<open>ValueError\<close> instead of returning a pair.
\<close>

theorem mailbox_client_unparseable_body:
  "fst (update_mailbox example_config failing_remote (JStr ''alice@example.com'') (Some True)
          (Some ''Alice'') None empty_world) = Inl ValueError \<and>
   fst (rename_mailbox example_config failing_remote (JStr ''alice@example.com'') ''alice.new''
          ''example.com'' empty_world) = Inl ValueError \<and>
   fst (delete_mailbox example_config failing_remote (JStr ''alice@example.com'') empty_world)
     = Inl ValueError"
  by (simp add: update_mailbox_def rename_mailbox_def delete_mailbox_def post_def
        json_or_raise_def failing_remote_def gateway_error_page_def)

text \<open>The create and lookup operations do return the pair on the same answer.\<close>

lemma mailbox_client_handled_body:
  "fst (create_mailbox example_config failing_remote ''alice'' ''example.com'' (Some ''Alice'')
          empty_world) = Inr (502, JNull)"
  "fst (get_mailbox example_config failing_remote ''alice@example.com'' empty_world)
     = Inr (502, JNull)"
  by (simp_all add: create_mailbox_def get_mailbox_def post_def json_or_none_def
        failing_remote_def gateway_error_page_def)

section \<open>Creation: remote failure, conflict, server-side identifier\<close>







text \<open>
  Claim C8, as the code has it. The address is resolved first: a request whose userName
  is already stored but whose \<open>emails\<close> list is empty fails with the 400
  \<open>invalidSyntax\<close> error, not with the conflict error.
\<close>

theorem create_user_conflict_counterexample:
  "sql_user_exists (externalId alice) (userName alice) (users alice_world) \<and>
   create_user example_config success_remote ''9c2e'' (alice\<lparr>emails := []\<rparr>) alice_world =
     (Inl missing_emails_error, alice_world) \<and>
   missing_emails_error \<noteq> conflict_error (externalId alice) (userName alice)"
  by (simp add: create_user_def get_primary_mail_def example_defs sql_user_exists_def
        missing_emails_error_def conflict_error_def scim_error_def)

text \<open>
  Claim C8, amended. If the primary address of the request resolves and the store holds
  a record whose userName is the request's userName, or whose externalId is the
  request's externalId (the request has one), creation raises the 409 \<open>uniqueness\<close>
  exception and the world is what it was: no call was sent to the remote API and
  neither table was written.
\<close>

theorem create_user_conflict:
  assumes "get_primary_mail (emails user) = Inr email" and "email \<noteq> JNull"
    and "\<exists>r\<in>set (users w). (externalId user \<noteq> None \<and> col_scimId r = externalId user) \<or>
                            col_userName r = userName user"
  shows "create_user cfg remote uuid4 user w =
           (Inl (conflict_error (externalId user) (userName user)), w)"
  using assms
  by (simp add: create_user_def connect_def sql_user_exists_def list_ex_iff Let_def)

text \<open>The theorem at work: Alice is created a second time.\<close>

theorem create_user_conflict_witness:
  "get_primary_mail (emails alice) = Inr (JStr ''alice@example.com'') \<and>
   (\<exists>r\<in>set (users alice_world). (externalId alice \<noteq> None \<and> col_scimId r = externalId alice) \<or>
                            col_userName r = userName alice) \<and>
   create_user example_config success_remote ''9c2e'' alice alice_world =
           (Inl (conflict_error (externalId alice) (userName alice)), alice_world)"
proof -
  have email: "get_primary_mail (emails alice) = Inr (JStr ''alice@example.com'')"
    by (simp add: get_primary_mail_def alice_def)
  have present: "JStr ''alice@example.com'' \<noteq> JNull" by simp
  have stored: "\<exists>r\<in>set (users alice_world). (externalId alice \<noteq> None \<and> col_scimId r = externalId alice) \<or>
                            col_userName r = userName alice"
    by (simp add: example_defs)
  show ?thesis
    using create_user_conflict [OF email present stored, of example_config success_remote "''9c2e''"]
      email stored by simp
qed

text \<open>
  Claim C10. When \<open>create_user\<close> returns, the \<open>id\<close> of the returned resource is the
  UUID drawn in this call, the one new row is stored under that UUID, no row had it
  before, and the \<open>id\<close> field of the request plays no part: any other value of it gives
  the same resource and the same store.
\<close>

theorem create_user_server_side_id:
  assumes "create_user cfg remote uuid4 user w = (Inr user', w')"
  shows "user_id user' = Some uuid4 \<and>
         (\<exists>row. users w' = users w @ [row] \<and> col_id row = uuid4) \<and>
         uuid4 \<notin> col_id ` set (users w) \<and>
         create_user cfg remote uuid4 (user\<lparr>user_id := client_id\<rparr>) w = (Inr user', w')"
proof -
  have same: "create_user cfg remote uuid4 (user\<lparr>user_id := client_id\<rparr>) w =
              create_user cfg remote uuid4 user w"
    unfolding create_user_def
    by (simp add: Let_def split: sum.splits prod.splits cong: if_cong)
  show ?thesis
    using create_user_cases [OF assms] assms same
    by (auto simp: list_ex_iff)
qed

text \<open>The theorem at work: Alice is created from a body that carries an \<open>id\<close> of the
  client's choosing.\<close>

theorem create_user_server_side_id_witness:
  "create_user example_config success_remote ''4a1f'' (alice\<lparr>user_id := Some ''chosen''\<rparr>) empty_world =
     (Inr (alice\<lparr>user_id := Some ''4a1f''\<rparr>), alice_world\<lparr>sent :=
        [create_mailbox_request example_config ''alice'' ''example.com'' (Some ''Alice'')]\<rparr>) \<and>
   user_id (alice\<lparr>user_id := Some ''4a1f''\<rparr>) = Some ''4a1f'' \<and>
   ''4a1f'' \<notin> col_id ` set (users empty_world) \<and>
   create_user example_config success_remote ''4a1f'' alice empty_world =
     (Inr (alice\<lparr>user_id := Some ''4a1f''\<rparr>), alice_world\<lparr>sent :=
        [create_mailbox_request example_config ''alice'' ''example.com'' (Some ''Alice'')]\<rparr>)"
proof -
  have run: "create_user example_config success_remote ''4a1f'' (alice\<lparr>user_id := Some ''chosen''\<rparr>)
               empty_world =
             (Inr (alice\<lparr>user_id := Some ''4a1f''\<rparr>), alice_world\<lparr>sent :=
                [create_mailbox_request example_config ''alice'' ''example.com'' (Some ''Alice'')]\<rparr>)"
    by (simp add: create_user_def get_primary_mail_def example_defs connect_def commit_def
          sql_user_exists_def create_mailbox_def create_mailbox_request_def post_def
          json_or_none_def remote_success_def resp_mailbox_id_def sql_insert_user_def Let_def)
  show ?thesis
    using create_user_server_side_id [OF run, of None] run
    by (simp add: alice_def)
qed

section \<open>Update: a rename that fails\<close>

text \<open>Whatever makes \<open>update_user\<close> raise, both tables are what they were.\<close>

lemma update_user_failure_frame:
  assumes "update_user cfg remote ident user w = (Inl e, w')"
  shows "users w' = users w \<and> metrics w' = metrics w"
  using update_user_cases [OF assms] by auto

text \<open>
  A rename call whose answer is JSON and is a failure does end in the 502 exception,
  after the edit call and the rename call and with no local write.
\<close>

lemma update_user_rename_rejected:
  assumes "get_primary_mail (emails user) = Inr email" and "email \<noteq> JNull"
    and "sql_select_by_id ident (users w) = Some row"
    and "col_mailcowId row = Some mailbox" and "email \<noteq> JStr mailbox"
    and "py_split_at email 0 = Inr local_part" and "py_split_at email 1 = Inr domain"
    and "edit = update_mailbox_request cfg (JStr mailbox) (Some (active user)) (displayName user) None"
    and "remote edit = success_response"
    and "rename = rename_mailbox_request cfg (JStr mailbox) (hd (str_split CHR ''@'' mailbox)) local_part domain"
    and "body (remote rename) = Some j"
    and "status_code (remote rename) \<noteq> 200 \<or> \<not> py_truthy j \<or>
         (\<exists>kvs rest t. j = JArr (JObj kvs # rest) \<and> map_of kvs ''type'' = Some t \<and>
                        t \<noteq> JStr ''success'')"
  shows "update_user cfg remote ident user w =
           (Inl upstream_error, w\<lparr>sent := sent w @ [edit, rename]\<rparr>)"
proof -
  have parts: "str_split CHR ''@'' mailbox \<noteq> []" by (cases mailbox) (auto split: list.splits)
  have rejected: "remote_success (status_code (remote rename)) j = Inr False"
    using assms(12) by (auto simp: remote_success_def)
  show ?thesis
    using assms(1-11) parts rejected
    by (simp add: update_user_def connect_def sql_bind_def update_mailbox_def post_def
          json_or_raise_def success_response_def remote_success_def rename_if_changed_def
          rename_mailbox_def Let_def hd_conv_nth)
qed

lemma update_user_rename_rejected_example:
  "update_user example_config rename_rejecting_remote ''4a1f'' alice_renamed alice_world =
     (Inl upstream_error,
      alice_world\<lparr>sent :=
        [update_mailbox_request example_config (JStr ''alice@example.com'') (Some True)
           (Some ''Alice'') None,
         rename_mailbox_request example_config (JStr ''alice@example.com'') ''alice''
           ''alice.new'' ''example.com'']\<rparr>)"
  by (simp add: update_user_def get_primary_mail_def example_defs alice_renamed_def connect_def
        rename_rejecting_remote_def sql_bind_def sql_select_by_id_def update_mailbox_def
        update_mailbox_request_def rename_mailbox_request_def rename_mailbox_def post_def
        json_or_raise_def remote_success_def rename_if_changed_def Let_def)

text \<open>
  Claim C7 (when the rename call is a remote failure the update reports the upstream
  error and writes nothing locally). The stored user is renamed, the edit call succeeds
  and the rename call is answered with a gateway error page. Nothing is written locally,
  but the exception that leaves \<open>update_user\<close> is the \<open>ValueError\<close> of \<open>resp.json()\<close>,
  not the 502 \<open>serverError\<close> exception.
\<close>

theorem update_user_rename_unparseable:
  "update_user example_config rename_failing_remote ''4a1f'' alice_renamed alice_world =
     (Inl ValueError,
      alice_world\<lparr>sent :=
        [update_mailbox_request example_config (JStr ''alice@example.com'') (Some True)
           (Some ''Alice'') None,
         rename_mailbox_request example_config (JStr ''alice@example.com'') ''alice''
           ''alice.new'' ''example.com'']\<rparr>)"
  by (simp add: update_user_def get_primary_mail_def example_defs alice_renamed_def connect_def
        sql_bind_def sql_select_by_id_def update_mailbox_def update_mailbox_request_def
        rename_mailbox_request_def rename_mailbox_def post_def json_or_raise_def
        remote_success_def rename_if_changed_def Let_def)

section \<open>The metric counters\<close>

lemma counter_sql_increment:
  assumes "metrics w' = sql_increment name' (metrics w)" and "counter w name = Some v"
  shows "counter w' name = Some (if name = name' then v + 1 else v)"
  using assms by (simp add: counter_def map_of_sql_increment)

lemma counts_unique: "counts rq name \<Longrightarrow> counts rq name' \<Longrightarrow> name = name'"
  by (cases rq) auto

text \<open>A request that is answered with an exception has written neither table.\<close>

lemma users_endpoint_failure_frame:
  assumes "users_endpoint cfg remote uuid4 authorization rq w = (res, w')" and "isl res"
  shows "users w' = users w \<and> metrics w' = metrics w"
proof (cases "authorization \<noteq> Some (''Bearer '' @ SCIM_TOKEN cfg)")
  case True
  with assms show ?thesis by (auto simp: users_endpoint_def)
next
  case False
  show ?thesis
  proof (cases rq)
    case (GetUser i)
    with False assms show ?thesis
      using get_user_frame [of i w]
      by (auto simp: users_endpoint_def split: prod.splits sum.splits)
  next
    case (GetUsers index count)
    with False assms show ?thesis
      using get_users_frame [of index count w]
      by (auto simp: users_endpoint_def split: prod.splits sum.splits)
  next
    case (PostUser user)
    with False assms show ?thesis
      by (auto simp: users_endpoint_def split: prod.splits sum.splits dest!: create_user_cases)
  next
    case (PutUser i user)
    with False assms show ?thesis
      by (auto simp: users_endpoint_def split: prod.splits sum.splits dest!: update_user_cases)
  next
    case (DeleteUser i)
    with False assms show ?thesis
      by (auto simp: users_endpoint_def split: prod.splits sum.splits dest!: delete_user_cases)
  qed
qed

text \<open>A request that is answered normally has run the \<open>UPDATE metrics\<close> statement of
  its handler once, if the handler has one, and no other statement on \<open>metrics\<close>.\<close>

lemma users_endpoint_success_metrics:
  assumes "users_endpoint cfg remote uuid4 authorization rq w = (res, w')" and "\<not> isl res"
  shows "(\<forall>name. counts rq name \<longrightarrow> metrics w' = sql_increment name (metrics w)) \<and>
         ((\<forall>name. \<not> counts rq name) \<longrightarrow> metrics w' = metrics w)"
proof (cases "authorization \<noteq> Some (''Bearer '' @ SCIM_TOKEN cfg)")
  case True
  with assms show ?thesis by (auto simp: users_endpoint_def)
next
  case False
  show ?thesis
  proof (cases rq)
    case (GetUser i)
    with False assms show ?thesis
      using get_user_frame [of i w]
      by (auto simp: users_endpoint_def split: prod.splits sum.splits)
  next
    case (GetUsers index count)
    with False assms show ?thesis
      using get_users_frame [of index count w]
      by (auto simp: users_endpoint_def split: prod.splits sum.splits)
  next
    case (PostUser user)
    with False assms show ?thesis
      by (auto simp: users_endpoint_def split: prod.splits sum.splits dest!: create_user_cases)
  next
    case (PutUser i user)
    with False assms show ?thesis
      by (auto simp: users_endpoint_def split: prod.splits sum.splits dest!: update_user_cases)
  next
    case (DeleteUser i)
    with False assms show ?thesis
      by (auto simp: users_endpoint_def split: prod.splits sum.splits dest!: delete_user_cases)
  qed
qed

lemma users_endpoint_counter:
  assumes run: "users_endpoint cfg remote uuid4 authorization rq w = (res, w')"
    and before: "counter w name = Some v"
  shows "counter w' name = Some (if \<not> isl res \<and> counts rq name then v + 1 else v)"
proof (cases "isl res")
  case True
  then show ?thesis
    using users_endpoint_failure_frame [OF run True] before by (simp add: counter_def)
next
  case False
  note ok = users_endpoint_success_metrics [OF run False]
  show ?thesis
  proof (cases "\<exists>name'. counts rq name'")
    case True
    then obtain name' where c: "counts rq name'" by blast
    with ok have "metrics w' = sql_increment name' (metrics w)" by blast
    from counter_sql_increment [OF this before] c False show ?thesis
      by (auto dest: counts_unique)
  next
    case none: False
    with ok have "metrics w' = metrics w" by blast
    with before none False show ?thesis by (simp add: counter_def)
  qed
qed

text \<open>Along any sequence of requests a counter only grows.\<close>

lemma serve_counter_monotone:
  assumes "counter w name = Some v"
  shows "\<exists>v'. counter (serve cfg calls w) name = Some v' \<and> v \<le> v'"
  using assms
proof (induction calls arbitrary: w v)
  case Nil
  then show ?case by simp
next
  case (Cons call calls)
  obtain remote uuid4 authorization rq where call: "call = (remote, uuid4, authorization, rq)"
    by (cases call) auto
  obtain res w1 where run: "users_endpoint cfg remote uuid4 authorization rq w = (res, w1)"
    by (cases "users_endpoint cfg remote uuid4 authorization rq w") auto
  let ?v1 = "if \<not> isl res \<and> counts rq name then v + 1 else v"
  have step: "counter w1 name = Some ?v1"
    using users_endpoint_counter [OF run Cons.prems] .
  from Cons.IH [OF step] obtain v' where "counter (serve cfg calls w1) name = Some v'" "?v1 \<le> v'"
    by blast
  then show ?case using call run by (auto split: if_splits)
qed

text \<open>
  Claim C9. Let any request to a \<open>/Users\<close> endpoint be served in a state where a counter
  has the value \<open>v\<close>. Afterwards the counter has a value \<open>v'\<close> with \<open>v \<le> v'\<close>: it is
  \<open>v + 1\<close> when the request succeeded and the counter is the one of its operation
  (created for create, updated for update, deleted for delete), and \<open>v\<close> in every other
  case. The increment and the statement on \<open>users\<close> are committed together: a request
  that fails leaves both tables as they were.
\<close>

theorem metric_counters:
  assumes run: "users_endpoint cfg remote uuid4 authorization rq w = (res, w')"
    and before: "counter w name = Some v"
  shows "(\<exists>v'. counter w' name = Some v' \<and> v \<le> v' \<and>
               v' = (if \<not> isl res \<and> counts rq name then v + 1 else v)) \<and>
         (isl res \<longrightarrow> users w' = users w \<and> metrics w' = metrics w)"
  using users_endpoint_counter [OF run before] users_endpoint_failure_frame [OF run]
  by auto

text \<open>The theorem at work: one successful create, update and delete, each from a
  counter at 0.\<close>

theorem metric_counters_witness:
  "counter empty_world ''users_created'' = Some 0 \<and>
   counter (snd (users_endpoint example_config success_remote ''4a1f'' (Some ''Bearer secret'')
                   (PostUser alice) empty_world)) ''users_created'' = Some 1 \<and>
   counter alice_world ''users_updated'' = Some 0 \<and>
   counter (snd (users_endpoint example_config success_remote ''4a1f'' (Some ''Bearer secret'')
                   (PutUser ''4a1f'' alice_renamed) alice_world)) ''users_updated'' = Some 1 \<and>
   counter short_world ''users_deleted'' = Some 0 \<and>
   counter (snd (users_endpoint example_config success_remote ''4a1f'' (Some ''Bearer secret'')
                   (DeleteUser ''7'') short_world)) ''users_deleted'' = Some 1"
proof -
  let ?post = "users_endpoint example_config success_remote ''4a1f'' (Some ''Bearer secret'')
                 (PostUser alice) empty_world"
  let ?put = "users_endpoint example_config success_remote ''4a1f'' (Some ''Bearer secret'')
                 (PutUser ''4a1f'' alice_renamed) alice_world"
  let ?delete = "users_endpoint example_config success_remote ''4a1f'' (Some ''Bearer secret'')
                 (DeleteUser ''7'') short_world"
  have created: "counter empty_world ''users_created'' = Some 0"
    by (simp add: counter_def example_defs)
  have updated: "counter alice_world ''users_updated'' = Some 0"
    by (simp add: counter_def example_defs)
  have deleted: "counter short_world ''users_deleted'' = Some 0"
    by (simp add: counter_def example_defs)
  have post_ok: "\<not> isl (fst ?post)"
    by (simp add: users_endpoint_def create_user_def get_primary_mail_def example_defs
          connect_def commit_def sql_user_exists_def create_mailbox_def post_def
          json_or_none_def remote_success_def resp_mailbox_id_def sql_insert_user_def Let_def)
  have put_ok: "\<not> isl (fst ?put)"
    by (simp add: users_endpoint_def update_user_def get_primary_mail_def example_defs
          alice_renamed_def connect_def commit_def sql_bind_def sql_select_by_id_def
          update_mailbox_def rename_mailbox_def post_def json_or_raise_def remote_success_def
          resp_mailbox_id_def rename_if_changed_def sql_update_user_def Let_def)
  have delete_ok: "\<not> isl (fst ?delete)"
    by (simp add: users_endpoint_def delete_user_def delete_and_count_def example_defs
          connect_def commit_def sql_bind_def str_as_sequence_def sql_select_by_id_def Let_def)
  have post_run: "?post = (fst ?post, snd ?post)" by simp
  have put_run: "?put = (fst ?put, snd ?put)" by simp
  have delete_run: "?delete = (fst ?delete, snd ?delete)" by simp
  show ?thesis
    using metric_counters [OF post_run created] metric_counters [OF put_run updated]
      metric_counters [OF delete_run deleted] post_ok put_ok delete_ok created updated deleted
    by simp
qed

end
